theory Spec2Isabelle
  imports Main "HOL-Library.Word" "HOL-Library.Sublist"
begin

section \<open>The LD\_PRELOAD flash-log harness (path-mapping.c)\<close>

text \<open>
  The library interposes on \<^verbatim>\<open>fopen64\<close>, \<open>fwrite\<close> and (when \<^verbatim>\<open>HOOK_TRUNCATE\<close> is
  defined) \<open>truncate\<close>. This theory embeds \<^verbatim>\<open>path-mapping.c\<close> function by function.

  Conventions of the embedding.
  \<^item> A \<^verbatim>\<open>const char*\<close> argument is a \<open>string option\<close>: \<open>None\<close> is the null pointer,
    \<open>Some s\<close> points at the bytes \<open>s\<close> followed by a terminating NUL. Should \<open>s\<close> itself
    hold a NUL byte, the C string ends there, as \<^verbatim>\<open>strlen\<close> would see it.
  \<^item> A \<^verbatim>\<open>FILE*\<close> is an address (a 64-bit word, 0 the null pointer); the \<^verbatim>\<open>FILE\<close> objects
    live in a store from addresses to objects, of which only \<^verbatim>\<open>_fileno\<close> is read.
  \<^item> \<^verbatim>\<open>size_t\<close> and \<^verbatim>\<open>__off_t\<close> are 64-bit words, \<^verbatim>\<open>int\<close> is a 32-bit word (the value
    returned by \<open>endswith\<close>, which is only ever -1, 0 or 1, is an \<open>int\<close>).
  \<^item> \<^verbatim>\<open>DEBUG\<close> is defined as \<^verbatim>\<open>false\<close>, so every \<^verbatim>\<open>DBG(...)\<close> expands to
    \<^verbatim>\<open>if(false) {...}\<close> and is left out.
\<close>

subsection \<open>C strings\<close>

type_synonym addr = "64 word"

definition PATH_ENDING :: string where
  "PATH_ENDING = ''.macromedia/Flash_Player/Logs/flashlog.txt''"

text \<open>The bytes of a C string: everything before the first NUL.\<close>

definition c_str :: "string \<Rightarrow> string" where
  "c_str s = takeWhile (\<lambda>c. c \<noteq> CHR 0x00) s"

definition strlen :: "string \<Rightarrow> nat" where
  "strlen s = length (c_str s)"

text \<open>
  \<^verbatim>\<open>strncmp(s1, s2, n)\<close>: compares at most \<open>n\<close> bytes as unsigned chars and stops after
  a NUL; the end of the list is the terminating NUL.
\<close>

definition byte_at :: "string \<Rightarrow> int" where
  "byte_at s = (case s of [] \<Rightarrow> 0 | c # _ \<Rightarrow> of_char c)"

fun strncmp :: "string \<Rightarrow> string \<Rightarrow> nat \<Rightarrow> int" where
  "strncmp s1 s2 0 = 0"
| "strncmp s1 s2 (Suc n) =
     (if byte_at s1 \<noteq> byte_at s2 then byte_at s1 - byte_at s2
      else if byte_at s1 = 0 then 0
      else strncmp (tl s1) (tl s2) n)"

subsection \<open>Path Matcher\<close>

text \<open>
  \<^verbatim>\<open>
  int endswith(const char* haystack, const char* needle) {
      if (!haystack || !needle) { return -1; }
      size_t haystack_len = strlen(haystack);
      size_t needle_len = strlen(needle);
      if (needle_len > haystack_len) { return 0; }
      return strncmp(haystack + haystack_len - needle_len, needle, needle_len) == 0;
  }
  \<close>
\<close>

fun endswith :: "string option \<Rightarrow> string option \<Rightarrow> int" where
  "endswith None _ = -1"
| "endswith _ None = -1"
| "endswith (Some haystack) (Some needle) =
     (let haystack_len = strlen haystack;
          needle_len = strlen needle
      in if needle_len > haystack_len then 0
         else if strncmp (drop (haystack_len - needle_len) haystack) needle needle_len = 0
              then 1 else 0)"

subsection \<open>Process state\<close>

text \<open>
  \<^verbatim>\<open>FILE\<close> objects, of which the library reads only \<^verbatim>\<open>_fileno\<close>.
\<close>

record FILE =
  fileno :: "32 word"

text \<open>
  What the C library holds for the process: the live \<^verbatim>\<open>FILE\<close> objects by address, the
  standard output stream (bytes buffered, bytes delivered, and whether the stream is in
  error, in which case printing and flushing fail and change nothing), and everything
  else the genuine implementations act on.
\<close>

record 'x libc_state =
  streams :: "addr \<rightharpoonup> FILE"
  stdout_pending :: string
  stdout_written :: string
  stdout_error :: bool
  rest :: 'x

text \<open>
  The function pointer types of the source. \<^verbatim>\<open>orig_fwrite_func_type\<close> is declared to
  return \<^verbatim>\<open>int\<close>, and \<^verbatim>\<open>orig_truncate_func_type\<close> to take an \<^verbatim>\<open>int length\<close>:
  \<^verbatim>\<open>
  typedef FILE* (*orig_fopen_func_type)(const char *path, const char *mode);
  typedef int (*orig_fwrite_func_type)(const void* ptr, size_t size, size_t nmemb, FILE* stream);
  typedef int (*orig_truncate_func_type)(const char* pathname, int length);
  \<close>
  The data pointer of a write is the bytes readable from it on (to the end of its
  object).
\<close>

type_synonym 'x orig_fopen_func_type =
  "string option \<Rightarrow> string option \<Rightarrow> 'x libc_state \<Rightarrow> addr \<times> 'x libc_state"

type_synonym 'x orig_fwrite_func_type =
  "string \<Rightarrow> 64 word \<Rightarrow> 64 word \<Rightarrow> addr \<Rightarrow> 'x libc_state \<Rightarrow> 32 word \<times> 'x libc_state"

type_synonym 'x orig_truncate_func_type =
  "string option \<Rightarrow> 32 word \<Rightarrow> 'x libc_state \<Rightarrow> 32 word \<times> 'x libc_state"

text \<open>
  Every call the library makes into the C library, in order, with its arguments and
  (for the genuine implementations) its result. \<open>Open_discard\<close> is the call of line 138,
  \<^verbatim>\<open>glibc_fopen64("/dev/null", flags)\<close>; \<open>Open_genuine\<close> the call of line 143.
\<close>

datatype event =
    Open_discard "string option" addr
  | Open_genuine "string option" "string option" addr
  | Write_genuine string "64 word" "64 word" addr "32 word"
  | Truncate_genuine "string option" "32 word" "32 word"
  | Stdout_fprintf string
  | Stdout_fflush

text \<open>
  The globals of the library (\<open>None\<close> is a null function pointer), the C library's
  state and the calls made so far.
\<close>

record 'x state =
  glibc_fopen64 :: "'x orig_fopen_func_type option"
  glibc_fwrite :: "'x orig_fwrite_func_type option"
  glibc_truncate :: "'x orig_truncate_func_type option"
  fake_log :: addr
  libc :: "'x libc_state"
  history :: "event list"

datatype fault = Null_function_pointer | Invalid_FILE_pointer | Unterminated_string

text \<open>The globals are zero-initialised.\<close>

definition initial :: "'x libc_state \<Rightarrow> 'x state" where
  "initial l = \<lparr>glibc_fopen64 = None, glibc_fwrite = None, glibc_truncate = None,
                fake_log = 0, libc = l, history = []\<rparr>"

subsection \<open>Resolved-Symbol Cache\<close>

text \<open>
  \<^verbatim>\<open>
  void init_preload() {
      glibc_fopen64 = (orig_fopen_func_type)dlsym(RTLD_NEXT, "fopen64");
      glibc_fwrite = (orig_fwrite_func_type)dlsym(RTLD_NEXT, "fwrite");
      glibc_truncate = (orig_truncate_func_type)dlsym(RTLD_NEXT, "truncate");
  }
  \<close>
  What \<^verbatim>\<open>dlsym(RTLD_NEXT, ...)\<close> finds is a parameter.
\<close>

record 'x dlsym_next =
  next_fopen64 :: "'x orig_fopen_func_type option"
  next_fwrite :: "'x orig_fwrite_func_type option"
  next_truncate :: "'x orig_truncate_func_type option"

definition init_preload :: "'x dlsym_next \<Rightarrow> 'x state \<Rightarrow> 'x state" where
  "init_preload dlsym s =
     s\<lparr>glibc_fopen64 := next_fopen64 dlsym,
       glibc_fwrite := next_fwrite dlsym,
       glibc_truncate := next_truncate dlsym\<rparr>"

subsection \<open>Open Interception\<close>

text \<open>
  \<^verbatim>\<open>
  FILE* fake_log = 0;

  FILE* fopen64(const char *pathname, const char* flags)
  {
      if(endswith(pathname, PATH_ENDING) == 1) {
         fake_log = glibc_fopen64("/dev/null", flags);
         return fake_log;
      }
      return glibc_fopen64(pathname, flags);
  }
  \<close>
\<close>

definition fopen64 ::
  "string option \<Rightarrow> string option \<Rightarrow> 'x state \<Rightarrow> fault + (addr \<times> 'x state)" where
  "fopen64 pathname flags s =
     (if endswith pathname (Some PATH_ENDING) = 1 then
        (case glibc_fopen64 s of
           None \<Rightarrow> Inl Null_function_pointer
         | Some f \<Rightarrow>
             (case f (Some ''/dev/null'') flags (libc s) of
                (h, l) \<Rightarrow>
                  Inr (h, s\<lparr>fake_log := h, libc := l,
                            history := history s @ [Open_discard flags h]\<rparr>)))
      else
        (case glibc_fopen64 s of
           None \<Rightarrow> Inl Null_function_pointer
         | Some f \<Rightarrow>
             (case f pathname flags (libc s) of
                (h, l) \<Rightarrow>
                  Inr (h, s\<lparr>libc := l,
                            history := history s @ [Open_genuine pathname flags h]\<rparr>))))"

subsection \<open>Truncate Interception (\<^verbatim>\<open>HOOK_TRUNCATE\<close> defined)\<close>

text \<open>
  \<^verbatim>\<open>
  int truncate(const char* pathname, __off_t length)
  {
      if(endswith(pathname, PATH_ENDING) == 1) {
          return 0;
      }
      return glibc_truncate(pathname, length);
  }
  \<close>
  The call converts \<open>length\<close> to the \<^verbatim>\<open>int\<close> of the pointer type.
\<close>

definition truncate ::
  "string option \<Rightarrow> 64 word \<Rightarrow> 'x state \<Rightarrow> fault + (32 word \<times> 'x state)" where
  "truncate pathname length' s =
     (if endswith pathname (Some PATH_ENDING) = 1 then Inr (0, s)
      else
        (case glibc_truncate s of
           None \<Rightarrow> Inl Null_function_pointer
         | Some f \<Rightarrow>
             (case f pathname (ucast length') (libc s) of
                (r, l) \<Rightarrow>
                  Inr (r, s\<lparr>libc := l,
                            history := history s @
                              [Truncate_genuine pathname (ucast length') r]\<rparr>))))"

subsection \<open>Write Interception\<close>

text \<open>
  \<^verbatim>\<open>p->_fileno\<close>: a null pointer or an address that holds no \<^verbatim>\<open>FILE\<close> cannot be read.
\<close>

definition FILE_at :: "'x libc_state \<Rightarrow> addr \<Rightarrow> FILE option" where
  "FILE_at l p = (if p = 0 then None else streams l p)"

text \<open>
  \<^verbatim>\<open>fprintf(stdout, "%s", (const char*) ptr)\<close> prints the bytes at \<open>ptr\<close> up to the first
  NUL; with no NUL among the readable bytes the read runs off the object.
  \<^verbatim>\<open>fflush(stdout)\<close> delivers what is buffered. The source ignores both results.
\<close>

definition fprintf_stdout_s :: "string \<Rightarrow> 'x libc_state \<Rightarrow> fault + 'x libc_state" where
  "fprintf_stdout_s ptr l =
     (if CHR 0x00 \<notin> set ptr then Inl Unterminated_string
      else if stdout_error l then Inr l
      else Inr (l\<lparr>stdout_pending := stdout_pending l @ c_str ptr\<rparr>))"

definition fflush_stdout :: "'x libc_state \<Rightarrow> 'x libc_state" where
  "fflush_stdout l =
     (if stdout_error l then l
      else l\<lparr>stdout_written := stdout_written l @ stdout_pending l,
             stdout_pending := []\<rparr>)"

text \<open>
  Line 169, \<^verbatim>\<open>return glibc_fwrite(ptr, size, nmemb, stream);\<close>: the \<^verbatim>\<open>int\<close> the pointer
  type declares is converted to the \<^verbatim>\<open>size_t\<close> that \<open>fwrite\<close> returns.
\<close>

definition call_glibc_fwrite ::
  "string \<Rightarrow> 64 word \<Rightarrow> 64 word \<Rightarrow> addr \<Rightarrow> 'x state \<Rightarrow> fault + (64 word \<times> 'x state)" where
  "call_glibc_fwrite ptr size' nmemb stream s =
     (case glibc_fwrite s of
        None \<Rightarrow> Inl Null_function_pointer
      | Some f \<Rightarrow>
          (case f ptr size' nmemb stream (libc s) of
             (r, l) \<Rightarrow>
               Inr (scast r, s\<lparr>libc := l,
                         history := history s @
                           [Write_genuine ptr size' nmemb stream r]\<rparr>)))"

text \<open>
  \<^verbatim>\<open>
  size_t fwrite(const void* ptr, size_t size, size_t nmemb, FILE* stream) {
      if(fake_log != 0 && stream->_fileno == fake_log->_fileno) {
          fprintf(stdout, "%s", (const char*) ptr);
          fflush(stdout);
          return size * nmemb;
      }
      return glibc_fwrite(ptr, size, nmemb, stream);
  }
  \<close>
  \<^verbatim>\<open>&&\<close> reads neither \<^verbatim>\<open>FILE\<close> when \<open>fake_log\<close> is null.
\<close>

definition fwrite ::
  "string \<Rightarrow> 64 word \<Rightarrow> 64 word \<Rightarrow> addr \<Rightarrow> 'x state \<Rightarrow> fault + (64 word \<times> 'x state)" where
  "fwrite ptr size' nmemb stream s =
     (if fake_log s \<noteq> 0 then
        (case FILE_at (libc s) stream of
           None \<Rightarrow> Inl Invalid_FILE_pointer
         | Some sf \<Rightarrow>
             (case FILE_at (libc s) (fake_log s) of
                None \<Rightarrow> Inl Invalid_FILE_pointer
              | Some lf \<Rightarrow>
                  if fileno sf = fileno lf then
                    (case fprintf_stdout_s ptr (libc s) of
                       Inl e \<Rightarrow> Inl e
                     | Inr l \<Rightarrow>
                         Inr (size' * nmemb,
                              s\<lparr>libc := fflush_stdout l,
                                history := history s @
                                  [Stdout_fprintf (c_str ptr), Stdout_fflush]\<rparr>))
                  else call_glibc_fwrite ptr size' nmemb stream s))
      else call_glibc_fwrite ptr size' nmemb stream s)"

subsection \<open>The host's calls\<close>

text \<open>
  The host application calls the three hooks, in any order, and between them does
  whatever else it does with the C library (\<open>Unhooked\<close>: closing a stream, reading,
  writing through functions that are not hooked), which the library does not see.
\<close>

datatype 'x host_call =
    Fopen64 "string option" "string option"
  | Fwrite string "64 word" "64 word" addr
  | Truncate "string option" "64 word"
  | Unhooked "'x libc_state \<Rightarrow> 'x libc_state"

fun run_call :: "'x host_call \<Rightarrow> 'x state \<Rightarrow> fault + 'x state" where
  "run_call (Fopen64 pathname flags) s = map_sum id snd (fopen64 pathname flags s)"
| "run_call (Fwrite ptr size' nmemb stream) s = map_sum id snd (fwrite ptr size' nmemb stream s)"
| "run_call (Truncate pathname length') s = map_sum id snd (truncate pathname length' s)"
| "run_call (Unhooked f) s = Inr (s\<lparr>libc := f (libc s)\<rparr>)"

fun run_calls :: "'x host_call list \<Rightarrow> 'x state \<Rightarrow> fault + 'x state" where
  "run_calls [] s = Inr s"
| "run_calls (c # cs) s =
     (case run_call c s of Inl e \<Rightarrow> Inl e | Inr s' \<Rightarrow> run_calls cs s')"

text \<open>The handles that the calls of line 138 returned, oldest first.\<close>

fun discard_handles :: "event list \<Rightarrow> addr list" where
  "discard_handles [] = []"
| "discard_handles (Open_discard flags h # es) = h # discard_handles es"
| "discard_handles (_ # es) = discard_handles es"

text \<open>The handles that the calls of line 143 returned, oldest first.\<close>

fun genuine_handles :: "event list \<Rightarrow> addr list" where
  "genuine_handles [] = []"
| "genuine_handles (Open_genuine pathname flags h # es) = h # genuine_handles es"
| "genuine_handles (_ # es) = genuine_handles es"

text \<open>
  The sink handle reference is none, or a handle value that a call of line 138 returned.
  (That the call of line 138 is the genuine open of \<open>/dev/null\<close> is in \<open>fopen64\<close>; the
  predicate says nothing of what else may have returned the same value.)
\<close>

definition sink_is_discard :: "'x state \<Rightarrow> bool" where
  "sink_is_discard s \<longleftrightarrow> fake_log s = 0 \<or> fake_log s \<in> set (discard_handles (history s))"

text \<open>
  The invariant in the words of the specification: the sink handle reference is none, or
  a handle returned by a call of line 138 and not a handle returned by a pass-through
  open (line 143).
\<close>

definition claimed_sink_invariant :: "'x state \<Rightarrow> bool" where
  "claimed_sink_invariant s \<longleftrightarrow>
     fake_log s = 0 \<or>
     (fake_log s \<in> set (discard_handles (history s)) \<and>
      fake_log s \<notin> set (genuine_handles (history s)))"

text \<open>An open whose path the Path Matcher answers 1 for.\<close>

fun is_matching_open :: "'x host_call \<Rightarrow> bool" where
  "is_matching_open (Fopen64 pathname flags) = (endswith pathname (Some PATH_ENDING) = 1)"
| "is_matching_open _ = False"

text \<open>
  The events of \<open>s'\<close> that come after those of \<open>s\<close>. \<open>continues s s'\<close>: the history
  of \<open>s'\<close> extends that of \<open>s\<close>, and the sink handle reference of \<open>s'\<close> is the handle
  of the last call of line 138 among the new events, or that of \<open>s\<close> when there is none.
\<close>

definition new_events :: "'x state \<Rightarrow> 'x state \<Rightarrow> event list" where
  "new_events s s' = drop (length (history s)) (history s')"

definition continues :: "'x state \<Rightarrow> 'x state \<Rightarrow> bool" where
  "continues s s' \<longleftrightarrow>
     history s' = history s @ new_events s s' \<and>
     fake_log s' = last (fake_log s # discard_handles (new_events s s'))"

subsection \<open>A sample process\<close>

text \<open>
  A process to run the hooks on: three live \<^verbatim>\<open>FILE\<close> objects, two of them on
  descriptor 3, and genuine implementations that answer with fixed values.
\<close>

definition sample_libc :: "unit libc_state" where
  "sample_libc =
     \<lparr>streams = [0x1000 \<mapsto> \<lparr>fileno = 3\<rparr>, 0x2000 \<mapsto> \<lparr>fileno = 3\<rparr>, 0x3000 \<mapsto> \<lparr>fileno = 4\<rparr>],
      stdout_pending = [], stdout_written = [], stdout_error = False, rest = ()\<rparr>"

definition sample_fopen64 :: "unit orig_fopen_func_type" where
  "sample_fopen64 path mode l = (if path = Some ''/dev/null'' then 0x1000 else 0x3000, l)"


definition sample_fwrite :: "unit orig_fwrite_func_type" where
  "sample_fwrite ptr size' nmemb stream l = (ucast nmemb, l)"

definition sample_truncate :: "unit orig_truncate_func_type" where
  "sample_truncate path length' l = (- 1, l)"

definition sample_state :: "unit state" where
  "sample_state =
     init_preload
       \<lparr>next_fopen64 = Some sample_fopen64, next_fwrite = Some sample_fwrite,
        next_truncate = Some sample_truncate\<rparr>
       (initial sample_libc)"

definition flashlog :: string where
  "flashlog = ''/home/user/.macromedia/Flash_Player/Logs/flashlog.txt''"

text \<open>The sample process after \<^verbatim>\<open>fopen64(flashlog, "w")\<close>.\<close>

definition opened_state :: "unit state" where
  "opened_state =
     sample_state\<lparr>fake_log := 0x1000, libc := sample_libc,
                  history := [Open_discard (Some ''w'') 0x1000]\<rparr>"




text \<open>
  A process whose genuine open hands out the address 0x1000 (on descriptor 3) each
  time, as an allocator does once the previous \<^verbatim>\<open>FILE\<close> has been closed; the host's
  \<^verbatim>\<open>fclose\<close> of that stream, which is not hooked; and the state after the host has
  opened the log, closed it and opened another file.
\<close>

definition reusing_fopen64 :: "unit orig_fopen_func_type" where
  "reusing_fopen64 path mode l = (0x1000, l\<lparr>streams := (streams l)(0x1000 \<mapsto> \<lparr>fileno = 3\<rparr>)\<rparr>)"

definition fclose_0x1000 :: "unit libc_state \<Rightarrow> unit libc_state" where
  "fclose_0x1000 l = l\<lparr>streams := (streams l)(0x1000 := None)\<rparr>"

definition empty_libc :: "unit libc_state" where
  "empty_libc = \<lparr>streams = Map.empty, stdout_pending = [], stdout_written = [],
                  stdout_error = False, rest = ()\<rparr>"

definition reuse_start :: "unit state" where
  "reuse_start =
     init_preload
       \<lparr>next_fopen64 = Some reusing_fopen64, next_fwrite = Some sample_fwrite,
        next_truncate = Some sample_truncate\<rparr>
       (initial empty_libc)"

definition reused_state :: "unit state" where
  "reused_state =
     reuse_start\<lparr>fake_log := 0x1000,
                 libc := empty_libc\<lparr>streams := [0x1000 \<mapsto> \<lparr>fileno = 3\<rparr>]\<rparr>,
                 history := [Open_discard (Some ''w'') 0x1000,
                             Open_genuine (Some ''/tmp/other.txt'') (Some ''w'') 0x1000]\<rparr>"

section \<open>Properties of the Path Matcher\<close>

lemma of_char_0_iff: "(of_char c :: int) = 0 \<longleftrightarrow> c = CHR 0x00"
  by (cases c) simp

lemma byte_at_simps: "byte_at [] = 0" "byte_at (c # cs) = of_char c"
  by (simp_all add: byte_at_def)

lemma c_str_simps:
  "c_str [] = []"
  "c_str (c # cs) = (if c = CHR 0x00 then [] else c # c_str cs)"
  by (simp_all add: c_str_def)

text \<open>\<open>strncmp\<close> answers 0 exactly when the first \<open>n\<close> bytes of the two C strings agree.\<close>

lemma strncmp_0_iff: "strncmp a b n = 0 \<longleftrightarrow> take n (c_str a) = take n (c_str b)"
proof (induction n arbitrary: a b)
  case 0
  then show ?case by simp
next
  case (Suc n)
  show ?case
  proof (cases a)
    case Nil
    then show ?thesis
      by (cases b) (auto simp: byte_at_simps c_str_simps of_char_0_iff)
  next
    case (Cons x xs)
    note a = this
    show ?thesis
    proof (cases b)
      case Nil
      with a show ?thesis by (auto simp: byte_at_simps c_str_simps of_char_0_iff)
    next
      case (Cons y ys)
      with a Suc.IH [of xs ys] show ?thesis
        by (auto simp: byte_at_simps c_str_simps of_char_0_iff)
    qed
  qed
qed

lemma c_str_drop: "k \<le> strlen s \<Longrightarrow> c_str (drop k s) = drop k (c_str s)"
  unfolding strlen_def c_str_def
  by (induction s arbitrary: k) (auto simp: drop_Cons split: nat.splits)

lemma endswith_present:
  "endswith (Some hs) (Some ns) =
     (if strlen ns \<le> strlen hs \<and> drop (strlen hs - strlen ns) (c_str hs) = c_str ns
      then 1 else 0)"
proof (cases "strlen ns \<le> strlen hs")
  case False
  then show ?thesis by (simp add: Let_def)
next
  case True
  have "length (drop (strlen hs - strlen ns) (c_str hs)) = strlen ns"
    using True by (simp add: strlen_def)
  then have "take (strlen ns) (drop (strlen hs - strlen ns) (c_str hs))
      = drop (strlen hs - strlen ns) (c_str hs)"
    by simp
  moreover have "take (strlen ns) (c_str ns) = c_str ns"
    by (simp add: strlen_def)
  ultimately show ?thesis
    using True by (simp add: Let_def strncmp_0_iff c_str_drop)
qed

text \<open>
  C3. The Path Matcher answers -1 (indeterminate) exactly when at least one argument is
  null; with both present it answers 1 (match) exactly when the suffix is no longer than
  the path and the last \<open>strlen suffix\<close> bytes of the path are, byte for byte, the
  suffix.
\<close>

theorem endswith_tri_state:
  "(endswith h n = -1 \<longleftrightarrow> h = None \<or> n = None) \<and>
   (endswith (Some hs) (Some ns) = 1 \<longleftrightarrow>
      strlen ns \<le> strlen hs \<and> drop (strlen hs - strlen ns) (c_str hs) = c_str ns)"
proof -
  have "endswith h n = -1 \<longleftrightarrow> h = None \<or> n = None"
  proof (cases h)
    case None
    then show ?thesis by simp
  next
    case (Some a)
    then show ?thesis by (cases n) (simp_all only: endswith_present, simp_all)
  qed
  then show ?thesis by (simp add: endswith_present del: endswith.simps)
qed

text \<open>
  C4, as stated, fails: for the path \<open>abc\<close> and the suffix \<open>xy\<close> the matcher answers 0
  (no-match) although the suffix is not longer than the path.
\<close>

theorem endswith_no_match_counterexample:
  "\<not> (endswith (Some ''abc'') (Some ''xy'') = 0 \<longleftrightarrow> strlen ''xy'' > strlen ''abc'')"
  by (simp add: Let_def strlen_def c_str_def byte_at_def)

text \<open>
  C4, amended. With both arguments present the Path Matcher answers 0 (no-match)
  exactly when the path does not end with the suffix: the suffix is longer than the
  path, or the last \<open>strlen suffix\<close> bytes of the path differ from the suffix.
\<close>

theorem endswith_no_match_iff:
  "endswith (Some hs) (Some ns) = 0 \<longleftrightarrow>
     \<not> (strlen ns \<le> strlen hs \<and> drop (strlen hs - strlen ns) (c_str hs) = c_str ns)"
  by (simp add: endswith_present del: endswith.simps)

section \<open>The sample process\<close>

lemma sample_state_simps:
  "glibc_fopen64 sample_state = Some sample_fopen64"
  "glibc_fwrite sample_state = Some sample_fwrite"
  "glibc_truncate sample_state = Some sample_truncate"
  "fake_log sample_state = 0"
  "libc sample_state = sample_libc"
  "history sample_state = []"
  by (simp_all add: sample_state_def init_preload_def initial_def)

lemma opened_state_simps:
  "glibc_fopen64 opened_state = Some sample_fopen64"
  "glibc_fwrite opened_state = Some sample_fwrite"
  "glibc_truncate opened_state = Some sample_truncate"
  "fake_log opened_state = 0x1000"
  "libc opened_state = sample_libc"
  "history opened_state = [Open_discard (Some ''w'') 0x1000]"
  by (simp_all add: opened_state_def sample_state_simps)


lemma reuse_start_simps:
  "glibc_fopen64 reuse_start = Some reusing_fopen64"
  "glibc_fwrite reuse_start = Some sample_fwrite"
  "glibc_truncate reuse_start = Some sample_truncate"
  "fake_log reuse_start = 0"
  "libc reuse_start = empty_libc"
  "history reuse_start = []"
  by (simp_all add: reuse_start_def init_preload_def initial_def)

lemma sample_libc_simps:
  "FILE_at sample_libc 0x1000 = Some \<lparr>fileno = 3\<rparr>"
  "FILE_at sample_libc 0x2000 = Some \<lparr>fileno = 3\<rparr>"
  "FILE_at sample_libc 0x3000 = Some \<lparr>fileno = 4\<rparr>"
  "stdout_pending sample_libc = []"
  "stdout_written sample_libc = []"
  "stdout_error sample_libc = False"
  by (simp_all add: sample_libc_def FILE_at_def)

lemma flashlog_matches: "endswith (Some flashlog) (Some PATH_ENDING) = 1"
  by (simp add: flashlog_def PATH_ENDING_def Let_def strlen_def c_str_def byte_at_def)

lemma other_no_match: "endswith (Some ''/tmp/other.txt'') (Some PATH_ENDING) = 0"
  by (simp add: PATH_ENDING_def Let_def strlen_def c_str_def byte_at_def)

lemma fopen64_sample: "fopen64 (Some flashlog) (Some ''w'') sample_state = Inr (0x1000, opened_state)"
  by (simp add: fopen64_def flashlog_matches sample_state_simps sample_fopen64_def
      opened_state_def del: endswith.simps)

section \<open>Open Interception\<close>

text \<open>
  C2. An open whose path matches the configured suffix (the Path Matcher answers 1),
  with the genuine open resolved: the only call made is the genuine open of
  \<open>/dev/null\<close> with the caller's mode flags; the handle it returns, whatever it is, is
  stored in \<open>fake_log\<close> over the previous value and returned. The requested path is not
  opened: the history gains the one event \<open>Open_discard\<close> and no \<open>Open_genuine\<close>.
\<close>

theorem fopen64_match_opens_discard:
  assumes "endswith pathname (Some PATH_ENDING) = 1"
      and "glibc_fopen64 s = Some f"
      and "f (Some ''/dev/null'') flags (libc s) = (h, l)"
  shows "fopen64 pathname flags s =
           Inr (h, s\<lparr>fake_log := h, libc := l,
                     history := history s @ [Open_discard flags h]\<rparr>)"
  using assms by (simp add: fopen64_def)

theorem fopen64_match_opens_discard_witness:
  "endswith (Some flashlog) (Some PATH_ENDING) = 1 \<and>
   glibc_fopen64 sample_state = Some sample_fopen64 \<and>
   sample_fopen64 (Some ''/dev/null'') (Some ''w'') (libc sample_state) = (0x1000, sample_libc) \<and>
   fopen64 (Some flashlog) (Some ''w'') sample_state =
     Inr (0x1000, sample_state\<lparr>fake_log := 0x1000, libc := sample_libc,
                    history := history sample_state @ [Open_discard (Some ''w'') 0x1000]\<rparr>)"
proof -
  have h1: "endswith (Some flashlog) (Some PATH_ENDING) = 1"
    by (rule flashlog_matches)
  have h2: "glibc_fopen64 sample_state = Some sample_fopen64"
    by (simp add: sample_state_simps)
  have h3: "sample_fopen64 (Some ''/dev/null'') (Some ''w'') (libc sample_state) = (0x1000, sample_libc)"
    by (simp add: sample_fopen64_def sample_state_simps)
  show ?thesis
    using h1 h2 h3 fopen64_match_opens_discard [OF h1 h2 h3] by simp
qed

lemma call_glibc_fwrite_fake_log:
  "call_glibc_fwrite ptr sz n stream s = Inr (r, s') \<Longrightarrow> fake_log s' = fake_log s"
  by (auto simp: call_glibc_fwrite_def split: option.splits prod.splits)

lemma fwrite_fake_log:
  "fwrite ptr sz n stream s = Inr (r, s') \<Longrightarrow> fake_log s' = fake_log s"
  by (auto simp: fwrite_def dest: call_glibc_fwrite_fake_log
      split: if_splits option.splits sum.splits)

lemma truncate_fake_log:
  "truncate pathname len s = Inr (r, s') \<Longrightarrow> fake_log s' = fake_log s"
  by (auto simp: truncate_def split: if_splits option.splits prod.splits)

lemma fopen64_no_match_fake_log:
  "endswith pathname (Some PATH_ENDING) \<noteq> 1 \<Longrightarrow> fopen64 pathname flags s = Inr (r, s')
    \<Longrightarrow> fake_log s' = fake_log s"
  by (auto simp: fopen64_def split: option.splits prod.splits)

lemma run_call_fake_log:
  "\<not> is_matching_open c \<Longrightarrow> run_call c s = Inr s' \<Longrightarrow> fake_log s' = fake_log s"
proof (cases c)
  case (Fopen64 p fl)
  assume "\<not> is_matching_open c" "run_call c s = Inr s'"
  with Fopen64 show ?thesis
    by (cases "fopen64 p fl s") (auto dest: fopen64_no_match_fake_log)
next
  case (Fwrite ptr sz n stream)
  assume "run_call c s = Inr s'"
  with Fwrite show ?thesis
    by (cases "fwrite ptr sz n stream s") (auto dest: fwrite_fake_log)
next
  case (Truncate p len)
  assume "run_call c s = Inr s'"
  with Truncate show ?thesis
    by (cases "truncate p len s") (auto dest: truncate_fake_log)
next
  case (Unhooked f)
  assume "run_call c s = Inr s'"
  with Unhooked show ?thesis by auto
qed

text \<open>
  C7. An open whose path does not match (the Path Matcher answers 0 or -1), with the
  genuine open resolved: the genuine open is called with the original path and flags,
  its handle (a null handle included) is returned as it is, and \<open>fake_log\<close> is left as it
  was. Nor does any other call of the host that is not a matching open change
  \<open>fake_log\<close>.
\<close>

theorem fopen64_no_match_delegates:
  assumes "endswith pathname (Some PATH_ENDING) \<noteq> 1"
      and "glibc_fopen64 s = Some f"
      and "f pathname flags (libc s) = (h, l)"
      and "\<not> is_matching_open c"
      and "run_call c s = Inr s'"
  shows "fopen64 pathname flags s =
           Inr (h, s\<lparr>libc := l, history := history s @ [Open_genuine pathname flags h]\<rparr>) \<and>
         fake_log (s\<lparr>libc := l, history := history s @ [Open_genuine pathname flags h]\<rparr>)
           = fake_log s \<and>
         fake_log s' = fake_log s"
  using assms by (simp add: fopen64_def run_call_fake_log)

theorem fopen64_no_match_delegates_witness:
  "endswith (Some ''/tmp/other.txt'') (Some PATH_ENDING) \<noteq> 1 \<and>
   glibc_fopen64 sample_state = Some sample_fopen64 \<and>
   sample_fopen64 (Some ''/tmp/other.txt'') (Some ''r'') (libc sample_state) = (0x3000, sample_libc) \<and>
   \<not> is_matching_open (Truncate (Some ''/tmp/other.txt'') 0 :: unit host_call) \<and>
   run_call (Truncate (Some ''/tmp/other.txt'') 0) sample_state =
     Inr (sample_state\<lparr>libc := sample_libc,
            history := [Truncate_genuine (Some ''/tmp/other.txt'') 0 (- 1)]\<rparr>) \<and>
   fopen64 (Some ''/tmp/other.txt'') (Some ''r'') sample_state =
     Inr (0x3000, sample_state\<lparr>libc := sample_libc,
            history := [Open_genuine (Some ''/tmp/other.txt'') (Some ''r'') 0x3000]\<rparr>) \<and>
   fake_log (sample_state\<lparr>libc := sample_libc,
            history := [Truncate_genuine (Some ''/tmp/other.txt'') 0 (- 1)]\<rparr>) = 0"
proof -
  have h1: "endswith (Some ''/tmp/other.txt'') (Some PATH_ENDING) \<noteq> 1"
    by (simp add: other_no_match del: endswith.simps)
  have h2: "glibc_fopen64 sample_state = Some sample_fopen64"
    by (simp add: sample_state_simps)
  have h3: "sample_fopen64 (Some ''/tmp/other.txt'') (Some ''r'') (libc sample_state)
      = (0x3000, sample_libc)"
    by (simp add: sample_fopen64_def sample_state_simps)
  have h4: "\<not> is_matching_open (Truncate (Some ''/tmp/other.txt'') 0 :: unit host_call)"
    by simp
  have h5: "run_call (Truncate (Some ''/tmp/other.txt'') 0) sample_state =
     Inr (sample_state\<lparr>libc := sample_libc,
            history := [Truncate_genuine (Some ''/tmp/other.txt'') 0 (- 1)]\<rparr>)"
    by (simp add: truncate_def other_no_match sample_state_simps sample_truncate_def
        del: endswith.simps)
  show ?thesis
    using h1 h2 h3 h4 h5 fopen64_no_match_delegates [OF h1 h2 h3 h4 h5]
    by (simp add: sample_state_simps del: endswith.simps)
qed

section \<open>Truncate Interception\<close>

text \<open>
  With \<^verbatim>\<open>HOOK_TRUNCATE\<close> defined: a truncate of a matching path does nothing (the
  state is unchanged, no call is made) and returns 0; a truncate of any other path calls
  the genuine truncate, with the length converted to \<^verbatim>\<open>int\<close>, and returns its result as
  it is; and for every path \<open>p\<close> the outcome is the same whatever \<open>fake_log\<close> holds.
\<close>

lemma truncate_by_path_only:
  assumes "endswith matching (Some PATH_ENDING) = 1"
      and "endswith pathname (Some PATH_ENDING) \<noteq> 1"
      and "glibc_truncate s = Some f"
      and "f pathname (ucast length') (libc s) = (r, l)"
  shows "truncate matching length' s = Inr (0, s) \<and>
         truncate pathname length' s =
           Inr (r, s\<lparr>libc := l,
                     history := history s @ [Truncate_genuine pathname (ucast length') r]\<rparr>) \<and>
         truncate p n (s\<lparr>fake_log := a\<rparr>) =
           map_sum id (\<lambda>(r', s'). (r', s'\<lparr>fake_log := a\<rparr>)) (truncate p n s)"
  using assms by (auto simp: truncate_def split: option.splits prod.splits)

lemma truncate_by_path_only_sample:
  "endswith (Some flashlog) (Some PATH_ENDING) = 1 \<and>
   endswith (Some ''/tmp/other.txt'') (Some PATH_ENDING) \<noteq> 1 \<and>
   glibc_truncate sample_state = Some sample_truncate \<and>
   sample_truncate (Some ''/tmp/other.txt'') (ucast (7 :: 64 word)) (libc sample_state)
     = (- 1, sample_libc) \<and>
   truncate (Some flashlog) 7 sample_state = Inr (0, sample_state) \<and>
   truncate (Some ''/tmp/other.txt'') 7 sample_state =
     Inr (- 1, sample_state\<lparr>libc := sample_libc,
            history := history sample_state @
              [Truncate_genuine (Some ''/tmp/other.txt'') (ucast (7 :: 64 word)) (- 1)]\<rparr>) \<and>
   truncate (Some flashlog) 7 (sample_state\<lparr>fake_log := 0x1000\<rparr>) =
     map_sum id (\<lambda>(r', s'). (r', s'\<lparr>fake_log := 0x1000\<rparr>))
       (truncate (Some flashlog) 7 sample_state)"
proof -
  have h1: "endswith (Some flashlog) (Some PATH_ENDING) = 1"
    by (rule flashlog_matches)
  have h2: "endswith (Some ''/tmp/other.txt'') (Some PATH_ENDING) \<noteq> 1"
    by (simp add: other_no_match del: endswith.simps)
  have h3: "glibc_truncate sample_state = Some sample_truncate"
    by (simp add: sample_state_simps)
  have h4: "sample_truncate (Some ''/tmp/other.txt'') (ucast (7 :: 64 word)) (libc sample_state)
     = (- 1, sample_libc)"
    by (simp add: sample_truncate_def sample_state_simps)
  show ?thesis
    using h1 h2 h3 h4
      truncate_by_path_only [OF h1 h2 h3 h4, of "Some flashlog" 7 "0x1000"]
    by (simp del: endswith.simps)
qed

text \<open>
  C8. The delegated call does not carry the caller's length: \<^verbatim>\<open>orig_truncate_func_type\<close>
  declares \<^verbatim>\<open>int length\<close> where the hook takes \<^verbatim>\<open>__off_t\<close>, so
  \<^verbatim>\<open>truncate("/tmp/other.txt", 0x100000005)\<close>, a path that does not match, calls the
  genuine truncate with length 5 and returns what that call returns; the hook cannot
  tell the two lengths apart.
\<close>

theorem truncate_narrows_length:
  "endswith (Some ''/tmp/other.txt'') (Some PATH_ENDING) = 0 \<and>
   truncate (Some ''/tmp/other.txt'') 0x100000005 sample_state =
     Inr (- 1, sample_state\<lparr>libc := sample_libc,
            history := [Truncate_genuine (Some ''/tmp/other.txt'') 5 (- 1)]\<rparr>) \<and>
   truncate (Some ''/tmp/other.txt'') 0x100000005 sample_state =
     truncate (Some ''/tmp/other.txt'') 5 sample_state \<and>
   (0x100000005 :: 64 word) \<noteq> 5"
  by (simp add: truncate_def other_no_match sample_state_simps sample_truncate_def
      del: endswith.simps)

section \<open>Write Interception\<close>

lemma fprintf_stdout_s_terminated:
  "CHR 0x00 \<in> set ptr \<Longrightarrow> \<exists>l'. fprintf_stdout_s ptr l = Inr l'"
  by (simp add: fprintf_stdout_s_def)

text \<open>
  C5. A write to a live stream, of a NUL-terminated buffer: the write is redirected
  (returns \<open>size * nmemb\<close> after the calls \<^verbatim>\<open>fprintf(stdout, ...)\<close> and
  \<^verbatim>\<open>fflush(stdout)\<close>, and nothing else) exactly when \<open>fake_log\<close> is set and the
  \<^verbatim>\<open>_fileno\<close> of the stream equals the \<^verbatim>\<open>_fileno\<close> of \<open>fake_log\<close>; it is passed to the
  genuine write exactly when not. The addresses of the two \<^verbatim>\<open>FILE\<close> objects play no
  part: the sample writes through the object at 0x2000 while \<open>fake_log\<close> is 0x1000, both
  on descriptor 3.
\<close>

theorem fwrite_classifies_by_descriptor:
  assumes "FILE_at (libc s) stream = Some sf"
      and "fake_log s \<noteq> 0 \<longrightarrow> FILE_at (libc s) (fake_log s) = Some lf"
      and "glibc_fwrite s = Some gw"
      and "gw ptr sz n stream (libc s) = (r, l)"
      and "CHR 0x00 \<in> set ptr"
  shows "((\<exists>s'. fwrite ptr sz n stream s = Inr (sz * n, s') \<and>
               history s' = history s @ [Stdout_fprintf (c_str ptr), Stdout_fflush])
          \<longleftrightarrow> fake_log s \<noteq> 0 \<and> fileno sf = fileno lf) \<and>
         (fwrite ptr sz n stream s =
            Inr (scast r, s\<lparr>libc := l,
                   history := history s @ [Write_genuine ptr sz n stream r]\<rparr>)
          \<longleftrightarrow> \<not> (fake_log s \<noteq> 0 \<and> fileno sf = fileno lf))"
proof (cases "fake_log s \<noteq> 0 \<and> fileno sf = fileno lf")
  case True
  obtain l' where l': "fprintf_stdout_s ptr (libc s) = Inr l'"
    using fprintf_stdout_s_terminated [OF assms(5)] by blast
  have eq: "fwrite ptr sz n stream s =
      Inr (sz * n, s\<lparr>libc := fflush_stdout l',
             history := history s @ [Stdout_fprintf (c_str ptr), Stdout_fflush]\<rparr>)"
    using True assms(1,2) l' by (simp add: fwrite_def)
  have "history (s\<lparr>libc := fflush_stdout l',
             history := history s @ [Stdout_fprintf (c_str ptr), Stdout_fflush]\<rparr>)
        \<noteq> history (s\<lparr>libc := l,
                   history := history s @ [Write_genuine ptr sz n stream r]\<rparr>)"
    by simp
  then have "fwrite ptr sz n stream s \<noteq>
            Inr (scast r, s\<lparr>libc := l,
                   history := history s @ [Write_genuine ptr sz n stream r]\<rparr>)"
    unfolding eq by (metis Inr_inject snd_conv)
  with True eq show ?thesis by simp
next
  case False
  have eq: "fwrite ptr sz n stream s =
            Inr (scast r, s\<lparr>libc := l,
                   history := history s @ [Write_genuine ptr sz n stream r]\<rparr>)"
    using False assms(1-4) by (auto simp: fwrite_def call_glibc_fwrite_def)
  have "\<not> (\<exists>s'. fwrite ptr sz n stream s = Inr (sz * n, s') \<and>
               history s' = history s @ [Stdout_fprintf (c_str ptr), Stdout_fflush])"
    unfolding eq by auto
  with False eq show ?thesis by simp
qed

theorem fwrite_classifies_by_descriptor_witness:
  "FILE_at (libc opened_state) 0x2000 = Some \<lparr>fileno = 3\<rparr> \<and>
   fake_log opened_state \<noteq> 0 \<and>
   FILE_at (libc opened_state) (fake_log opened_state) = Some \<lparr>fileno = 3\<rparr> \<and>
   fake_log opened_state \<noteq> 0x2000 \<and>
   glibc_fwrite opened_state = Some sample_fwrite \<and>
   sample_fwrite (''hi'' @ [CHR 0x00]) 1 2 0x2000 (libc opened_state) = (2, sample_libc) \<and>
   CHR 0x00 \<in> set (''hi'' @ [CHR 0x00]) \<and>
   (\<exists>s'. fwrite (''hi'' @ [CHR 0x00]) 1 2 0x2000 opened_state = Inr (1 * 2, s') \<and>
         history s' = history opened_state @
           [Stdout_fprintf (c_str (''hi'' @ [CHR 0x00])), Stdout_fflush]) \<and>
   fwrite (''hi'' @ [CHR 0x00]) 1 2 0x2000 opened_state \<noteq>
     Inr (scast (2 :: 32 word), opened_state\<lparr>libc := sample_libc,
            history := history opened_state @
              [Write_genuine (''hi'' @ [CHR 0x00]) 1 2 0x2000 2]\<rparr>)"
proof -
  have h1: "FILE_at (libc opened_state) 0x2000 = Some \<lparr>fileno = 3\<rparr>"
    by (simp add: opened_state_simps sample_libc_simps)
  have h2: "fake_log opened_state \<noteq> 0 \<longrightarrow>
      FILE_at (libc opened_state) (fake_log opened_state) = Some \<lparr>fileno = 3\<rparr>"
    by (simp add: opened_state_simps sample_libc_simps)
  have h3: "glibc_fwrite opened_state = Some sample_fwrite"
    by (simp add: opened_state_simps)
  have h4: "sample_fwrite (''hi'' @ [CHR 0x00]) 1 2 0x2000 (libc opened_state)
      = (2, sample_libc)"
    by (simp add: sample_fwrite_def opened_state_simps)
  have h5: "CHR 0x00 \<in> set (''hi'' @ [CHR 0x00])"
    by simp
  have h6: "fake_log opened_state \<noteq> 0 \<and> fake_log opened_state \<noteq> 0x2000"
    by (simp add: opened_state_simps)
  show ?thesis
    using h1 h2 h3 h4 h5 h6 fwrite_classifies_by_descriptor [OF h1 h2 h3 h4 h5]
    by simp
qed

text \<open>
  A write classified as a sink write, of a buffer with a NUL among its readable bytes,
  returns \<open>size * nmemb\<close> (the \<^verbatim>\<open>size_t\<close> product), whether or not standard output is in
  error: the results of \<^verbatim>\<open>fprintf\<close> and \<^verbatim>\<open>fflush\<close> are not looked at. In the sample
  standard output is in error.
\<close>

lemma fwrite_sink_returns_size_times_count:
  assumes "fake_log s \<noteq> 0"
      and "FILE_at (libc s) stream = Some sf"
      and "FILE_at (libc s) (fake_log s) = Some lf"
      and "fileno sf = fileno lf"
      and "CHR 0x00 \<in> set ptr"
  shows "\<exists>s'. fwrite ptr sz n stream s = Inr (sz * n, s')"
proof -
  obtain l' where "fprintf_stdout_s ptr (libc s) = Inr l'"
    using fprintf_stdout_s_terminated [OF assms(5)] by blast
  with assms(1-4) show ?thesis by (simp add: fwrite_def)
qed

lemma fwrite_sink_returns_size_times_count_sample:
  "fake_log (opened_state\<lparr>libc := sample_libc\<lparr>stdout_error := True\<rparr>\<rparr>) \<noteq> 0 \<and>
   FILE_at (libc (opened_state\<lparr>libc := sample_libc\<lparr>stdout_error := True\<rparr>\<rparr>)) 0x1000
     = Some \<lparr>fileno = 3\<rparr> \<and>
   FILE_at (libc (opened_state\<lparr>libc := sample_libc\<lparr>stdout_error := True\<rparr>\<rparr>))
     (fake_log (opened_state\<lparr>libc := sample_libc\<lparr>stdout_error := True\<rparr>\<rparr>))
     = Some \<lparr>fileno = 3\<rparr> \<and>
   CHR 0x00 \<in> set (''hello'' @ [CHR 0x00]) \<and>
   stdout_error (libc (opened_state\<lparr>libc := sample_libc\<lparr>stdout_error := True\<rparr>\<rparr>)) \<and>
   (\<exists>s'. fwrite (''hello'' @ [CHR 0x00]) 1 5 0x1000
           (opened_state\<lparr>libc := sample_libc\<lparr>stdout_error := True\<rparr>\<rparr>) = Inr (1 * 5, s'))"
proof -
  let ?s = "opened_state\<lparr>libc := sample_libc\<lparr>stdout_error := True\<rparr>\<rparr>"
  have h1: "fake_log ?s \<noteq> 0"
    by (simp add: opened_state_simps)
  have h2: "FILE_at (libc ?s) 0x1000 = Some \<lparr>fileno = 3\<rparr>"
    by (simp add: sample_libc_def FILE_at_def)
  have h3: "FILE_at (libc ?s) (fake_log ?s) = Some \<lparr>fileno = 3\<rparr>"
    by (simp add: sample_libc_def FILE_at_def opened_state_simps)
  have h4: "fileno \<lparr>fileno = 3\<rparr> = fileno \<lparr>fileno = 3\<rparr>"
    by simp
  have h5: "CHR 0x00 \<in> set (''hello'' @ [CHR 0x00])"
    by simp
  show ?thesis
    using h1 h2 h3 h5 fwrite_sink_returns_size_times_count [OF h1 h2 h3 h4 h5, of 1 5]
    by simp
qed

text \<open>
  C6. A sink write does not return \<open>size * nmemb\<close> whatever the payload: the buffer is
  printed with \<^verbatim>\<open>%s\<close>, so the write of the eight bytes \<open>log line\<close> (size 1, count 8, no
  NUL after them) through a stream on the sink's descriptor reads past the buffer
  instead of returning 8.
\<close>

theorem fwrite_sink_unterminated_does_not_return:
  "fopen64 (Some flashlog) (Some ''w'') sample_state = Inr (0x1000, opened_state) \<and>
   fake_log opened_state = 0x1000 \<and>
   FILE_at (libc opened_state) 0x2000 = Some \<lparr>fileno = 3\<rparr> \<and>
   FILE_at (libc opened_state) 0x1000 = Some \<lparr>fileno = 3\<rparr> \<and>
   CHR 0x00 \<notin> set ''log line'' \<and>
   fwrite ''log line'' 1 8 0x2000 opened_state = Inl Unterminated_string \<and>
   map_sum id fst (fwrite ''log line'' 1 8 0x2000 opened_state) \<noteq> Inr (1 * 8)"
  by (simp add: fopen64_sample fwrite_def opened_state_simps sample_libc_simps
      fprintf_stdout_s_def)

text \<open>
  C1. The redirected write prints the C string at \<open>ptr\<close>, not \<open>size * nmemb\<close> bytes.
  After \<^verbatim>\<open>fopen64(flashlog, "w")\<close> has returned the handle 0x1000, the write of the five
  bytes \<open>ab\<close>, NUL, \<open>cd\<close> (size 1, count 5) puts the two bytes \<open>ab\<close> on standard output
  and returns 5; the write of the first five bytes of \<open>hello world\<close> (size 1, count 5)
  puts all eleven on standard output and returns 5. Both are flushed, and no genuine
  write is made. The write of a buffer that is exactly the five bytes \<open>hello\<close>, with no
  NUL after them, reads past the buffer.
\<close>

theorem fwrite_sink_prints_c_string:
  "fopen64 (Some flashlog) (Some ''w'') sample_state = Inr (0x1000, opened_state) \<and>
   map_sum id (\<lambda>(r, s'). (r, stdout_written (libc s'), stdout_pending (libc s'), history s'))
     (fwrite (''ab'' @ [CHR 0x00] @ ''cd'') 1 5 0x1000 opened_state) = Inr (5, ''ab'', [],
         [Open_discard (Some ''w'') 0x1000, Stdout_fprintf ''ab'', Stdout_fflush]) \<and>
   take (unat (1 * 5 :: 64 word)) (''ab'' @ [CHR 0x00] @ ''cd'') \<noteq> ''ab'' \<and>
   map_sum id (\<lambda>(r, s'). (r, stdout_written (libc s'), stdout_pending (libc s'), history s'))
     (fwrite (''hello world'' @ [CHR 0x00]) 1 5 0x1000 opened_state)
       = Inr (5, ''hello world'', [],
           [Open_discard (Some ''w'') 0x1000, Stdout_fprintf ''hello world'', Stdout_fflush]) \<and>
   take (unat (1 * 5 :: 64 word)) (''hello world'' @ [CHR 0x00]) \<noteq> ''hello world'' \<and>
   fwrite ''hello'' 1 5 0x1000 opened_state = Inl Unterminated_string"
  by (simp add: fopen64_sample fwrite_def opened_state_simps sample_libc_simps
      fprintf_stdout_s_def fflush_stdout_def c_str_def)

section \<open>The sink handle reference over a run\<close>

lemma discard_handles_append:
  "discard_handles (a @ b) = discard_handles a @ discard_handles b"
  by (induction a rule: discard_handles.induct) simp_all

lemma continuesI:
  "history s' = history s @ evs \<Longrightarrow> fake_log s' = last (fake_log s # discard_handles evs)
    \<Longrightarrow> continues s s'"
  by (simp add: continues_def new_events_def)

lemma continuesD:
  assumes "continues s s'"
  obtains evs where "history s' = history s @ evs"
    and "fake_log s' = last (fake_log s # discard_handles evs)"
  using assms unfolding continues_def by blast

lemma continues_refl: "continues s s"
  by (rule continuesI [where evs = "[]"]) simp_all


lemma fopen64_continues:
  assumes "fopen64 pathname flags s = Inr (r, s')"
  shows "continues s s'"
proof (cases "endswith pathname (Some PATH_ENDING) = 1")
  case True
  with assms obtain h l where
    "s' = s\<lparr>fake_log := h, libc := l, history := history s @ [Open_discard flags h]\<rparr>"
    by (auto simp: fopen64_def split: option.splits prod.splits)
  then show ?thesis
    by (intro continuesI [where evs = "[Open_discard flags h]"]) simp_all
next
  case False
  with assms obtain h l where
    "s' = s\<lparr>libc := l, history := history s @ [Open_genuine pathname flags h]\<rparr>"
    by (auto simp: fopen64_def split: option.splits prod.splits)
  then show ?thesis
    by (intro continuesI [where evs = "[Open_genuine pathname flags h]"]) simp_all
qed

lemma call_glibc_fwrite_continues:
  assumes "call_glibc_fwrite ptr sz n stream s = Inr (r, s')"
  shows "continues s s'"
proof -
  from assms obtain r' l where
    "s' = s\<lparr>libc := l, history := history s @ [Write_genuine ptr sz n stream r']\<rparr>"
    by (auto simp: call_glibc_fwrite_def split: option.splits prod.splits)
  then show ?thesis
    by (intro continuesI [where evs = "[Write_genuine ptr sz n stream r']"]) simp_all
qed

lemma fwrite_cases:
  "fwrite ptr sz n stream s = call_glibc_fwrite ptr sz n stream s \<or>
   (\<exists>e. fwrite ptr sz n stream s = Inl e) \<or>
   (\<exists>l. fwrite ptr sz n stream s =
      Inr (sz * n, s\<lparr>libc := l,
             history := history s @ [Stdout_fprintf (c_str ptr), Stdout_fflush]\<rparr>))"
  by (auto simp: fwrite_def split: option.splits sum.splits)

lemma fwrite_continues:
  assumes "fwrite ptr sz n stream s = Inr (r, s')"
  shows "continues s s'"
proof -
  consider "fwrite ptr sz n stream s = call_glibc_fwrite ptr sz n stream s"
    | l where "fwrite ptr sz n stream s =
      Inr (sz * n, s\<lparr>libc := l,
             history := history s @ [Stdout_fprintf (c_str ptr), Stdout_fflush]\<rparr>)"
    using fwrite_cases [of ptr sz n stream s] assms by auto
  then show ?thesis
  proof cases
    case 1
    with assms show ?thesis by (simp add: call_glibc_fwrite_continues)
  next
    case 2
    with assms have
      "s' = s\<lparr>libc := l, history := history s @ [Stdout_fprintf (c_str ptr), Stdout_fflush]\<rparr>"
      by simp
    then show ?thesis
      by (intro continuesI [where evs = "[Stdout_fprintf (c_str ptr), Stdout_fflush]"])
        simp_all
  qed
qed

lemma truncate_continues:
  assumes "truncate pathname len s = Inr (r, s')"
  shows "continues s s'"
proof (cases "endswith pathname (Some PATH_ENDING) = 1")
  case True
  with assms have "s' = s" by (simp add: truncate_def)
  then show ?thesis by (simp add: continues_refl)
next
  case False
  with assms obtain r' l where
    "s' = s\<lparr>libc := l, history := history s @ [Truncate_genuine pathname (ucast len) r']\<rparr>"
    by (auto simp: truncate_def split: option.splits prod.splits)
  then show ?thesis
    by (intro continuesI [where evs = "[Truncate_genuine pathname (ucast len) r']"]) simp_all
qed

lemma run_call_continues:
  assumes "run_call c s = Inr s'"
  shows "continues s s'"
proof (cases c)
  case (Fopen64 p fl)
  with assms obtain r where "fopen64 p fl s = Inr (r, s')"
    by (cases "fopen64 p fl s") auto
  then show ?thesis by (rule fopen64_continues)
next
  case (Fwrite ptr sz n stream)
  with assms obtain r where "fwrite ptr sz n stream s = Inr (r, s')"
    by (cases "fwrite ptr sz n stream s") auto
  then show ?thesis by (rule fwrite_continues)
next
  case (Truncate p len)
  with assms obtain r where "truncate p len s = Inr (r, s')"
    by (cases "truncate p len s") auto
  then show ?thesis by (rule truncate_continues)
next
  case (Unhooked f)
  with assms have "s' = s\<lparr>libc := f (libc s)\<rparr>" by auto
  then show ?thesis
    by (intro continuesI [where evs = "[]"]) simp_all
qed


lemma run_call_discard_origin:
  assumes "run_call c s = Inr s'"
      and "Open_discard flags h \<in> set (new_events s s')"
  shows "\<exists>f. glibc_fopen64 s = Some f \<and> fst (f (Some ''/dev/null'') flags (libc s)) = h \<and>
             fake_log s' = h"
proof (cases c)
  case (Fopen64 p fl)
  with assms(1) obtain r where r: "fopen64 p fl s = Inr (r, s')"
    by (cases "fopen64 p fl s") auto
  show ?thesis
  proof (cases "endswith p (Some PATH_ENDING) = 1")
    case True
    with r obtain f h' l where f: "glibc_fopen64 s = Some f"
      "f (Some ''/dev/null'') fl (libc s) = (h', l)"
      "s' = s\<lparr>fake_log := h', libc := l, history := history s @ [Open_discard fl h']\<rparr>"
      by (auto simp: fopen64_def split: option.splits prod.splits)
    with assms(2) show ?thesis by (simp add: new_events_def)
  next
    case False
    with r obtain h' l where
      "s' = s\<lparr>libc := l, history := history s @ [Open_genuine p fl h']\<rparr>"
      by (auto simp: fopen64_def split: option.splits prod.splits)
    with assms(2) show ?thesis by (simp add: new_events_def)
  qed
next
  case (Fwrite ptr sz n stream)
  with assms(1) obtain r where r: "fwrite ptr sz n stream s = Inr (r, s')"
    by (cases "fwrite ptr sz n stream s") auto
  consider "call_glibc_fwrite ptr sz n stream s = Inr (r, s')"
    | l where "s' = s\<lparr>libc := l,
             history := history s @ [Stdout_fprintf (c_str ptr), Stdout_fflush]\<rparr>"
    using fwrite_cases [of ptr sz n stream s] r by auto
  then show ?thesis
  proof cases
    case 1
    then obtain r' l where
      "s' = s\<lparr>libc := l, history := history s @ [Write_genuine ptr sz n stream r']\<rparr>"
      by (auto simp: call_glibc_fwrite_def split: option.splits prod.splits)
    with assms(2) show ?thesis by (simp add: new_events_def)
  next
    case 2
    with assms(2) show ?thesis by (simp add: new_events_def)
  qed
next
  case (Truncate p len)
  with assms(1) obtain r where r: "truncate p len s = Inr (r, s')"
    by (cases "truncate p len s") auto
  show ?thesis
  proof (cases "endswith p (Some PATH_ENDING) = 1")
    case True
    with r have "s' = s" by (simp add: truncate_def)
    with assms(2) show ?thesis by (simp add: new_events_def)
  next
    case False
    with r obtain r' l where
      "s' = s\<lparr>libc := l, history := history s @ [Truncate_genuine p (ucast len) r']\<rparr>"
      by (auto simp: truncate_def split: option.splits prod.splits)
    with assms(2) show ?thesis by (simp add: new_events_def)
  qed
next
  case (Unhooked f)
  with assms show ?thesis by (auto simp: new_events_def)
qed

lemma sink_is_discard_step:
  assumes inv: "sink_is_discard s" and step: "run_call c s = Inr s'"
  shows "sink_is_discard s'"
proof -
  from run_call_continues [OF step] obtain evs where evs: "history s' = history s @ evs"
    "fake_log s' = last (fake_log s # discard_handles evs)"
    by (rule continuesD)
  show ?thesis
  proof (cases "discard_handles evs = []")
    case True
    with evs inv show ?thesis
      by (auto simp: sink_is_discard_def discard_handles_append)
  next
    case False
    then have "last (discard_handles evs) \<in> set (discard_handles evs)"
      by (rule last_in_set)
    with False evs show ?thesis
      by (simp add: sink_is_discard_def discard_handles_append)
  qed
qed

text \<open>
  C9, as stated, fails. The host opens the log (the hook's open of \<open>/dev/null\<close> returns
  0x1000, which is stored in \<open>fake_log\<close>), closes that stream (\<^verbatim>\<open>fclose\<close> is not hooked, so
  \<open>fake_log\<close> stays 0x1000) and opens \<open>/tmp/other.txt\<close>, for which the genuine open returns
  0x1000 again: \<open>fake_log\<close> is now the handle produced by a pass-through open of a path
  the caller asked for.
\<close>

theorem sink_reused_by_genuine_open_counterexample:
  "run_calls
     [Fopen64 (Some flashlog) (Some ''w''), Unhooked fclose_0x1000,
      Fopen64 (Some ''/tmp/other.txt'') (Some ''w'')]
     reuse_start = Inr reused_state \<and>
   fake_log reused_state = 0x1000 \<and>
   history reused_state =
     [Open_discard (Some ''w'') 0x1000,
      Open_genuine (Some ''/tmp/other.txt'') (Some ''w'') 0x1000] \<and>
   \<not> claimed_sink_invariant reused_state"
  by (simp add: fopen64_def flashlog_matches other_no_match reuse_start_simps
      reusing_fopen64_def fclose_0x1000_def reused_state_def empty_libc_def
      claimed_sink_invariant_def del: endswith.simps)

text \<open>
  C9, amended. \<open>sink_is_discard\<close> (the sink handle reference is none, or a handle value
  returned by a call of line 138) holds of the initial state, is kept by \<open>init_preload\<close>
  and by every call of the host: each of the three hooks, and whatever the host does in
  between. Every call of line 138 is the genuine open of \<open>/dev/null\<close> with the caller's
  flags, and its handle is what \<open>fake_log\<close> holds afterwards. No call other than a
  matching open assigns \<open>fake_log\<close>; in particular a pass-through open never does.
\<close>

theorem sink_assigned_only_from_discard:
  "sink_is_discard (initial l0) \<and>
   (sink_is_discard s \<longrightarrow> sink_is_discard (init_preload dlsym s)) \<and>
   (sink_is_discard s \<and> run_call c s = Inr s' \<longrightarrow> sink_is_discard s') \<and>
   (run_call c s = Inr s' \<and> Open_discard flags h \<in> set (new_events s s') \<longrightarrow>
      (\<exists>f. glibc_fopen64 s = Some f \<and>
           fst (f (Some ''/dev/null'') flags (libc s)) = h \<and> fake_log s' = h)) \<and>
   (\<not> is_matching_open c \<and> run_call c s = Inr s' \<longrightarrow> fake_log s' = fake_log s)"
proof -
  have "sink_is_discard (initial l0)"
    by (simp add: sink_is_discard_def initial_def)
  moreover have "sink_is_discard s \<longrightarrow> sink_is_discard (init_preload dlsym s)"
    by (simp add: sink_is_discard_def init_preload_def)
  moreover have "sink_is_discard s \<and> run_call c s = Inr s' \<longrightarrow> sink_is_discard s'"
    using sink_is_discard_step by blast
  moreover have "run_call c s = Inr s' \<and> Open_discard flags h \<in> set (new_events s s') \<longrightarrow>
      (\<exists>f. glibc_fopen64 s = Some f \<and>
           fst (f (Some ''/dev/null'') flags (libc s)) = h \<and> fake_log s' = h)"
    using run_call_discard_origin by blast
  moreover have "\<not> is_matching_open c \<and> run_call c s = Inr s' \<longrightarrow> fake_log s' = fake_log s"
    using run_call_fake_log by blast
  ultimately show ?thesis by blast
qed

theorem sink_assigned_only_from_discard_witness:
  "sink_is_discard sample_state \<and>
   run_call (Fopen64 (Some flashlog) (Some ''w'')) sample_state = Inr opened_state \<and>
   Open_discard (Some ''w'') 0x1000 \<in> set (new_events sample_state opened_state) \<and>
   sink_is_discard opened_state \<and>
   fake_log opened_state \<in> set (discard_handles (history opened_state)) \<and>
   glibc_fopen64 sample_state = Some sample_fopen64 \<and>
   fst (sample_fopen64 (Some ''/dev/null'') (Some ''w'') (libc sample_state)) = 0x1000 \<and>
   fake_log opened_state = 0x1000 \<and>
   \<not> is_matching_open (Fopen64 (Some ''/tmp/other.txt'') (Some ''r'') :: unit host_call) \<and>
   run_call (Fopen64 (Some ''/tmp/other.txt'') (Some ''r'')) opened_state =
     Inr (opened_state\<lparr>history := history opened_state @
            [Open_genuine (Some ''/tmp/other.txt'') (Some ''r'') 0x3000]\<rparr>) \<and>
   fake_log (opened_state\<lparr>history := history opened_state @
            [Open_genuine (Some ''/tmp/other.txt'') (Some ''r'') 0x3000]\<rparr>) = fake_log opened_state"
proof -
  have h1: "sink_is_discard sample_state"
    by (simp add: sink_is_discard_def sample_state_simps)
  have h2: "run_call (Fopen64 (Some flashlog) (Some ''w'')) sample_state = Inr opened_state"
    by (simp add: fopen64_sample)
  have h3: "Open_discard (Some ''w'') 0x1000 \<in> set (new_events sample_state opened_state)"
    by (simp add: new_events_def sample_state_simps opened_state_simps)
  have h4: "\<not> is_matching_open (Fopen64 (Some ''/tmp/other.txt'') (Some ''r'') :: unit host_call)"
    by (simp add: other_no_match del: endswith.simps)
  have h5: "run_call (Fopen64 (Some ''/tmp/other.txt'') (Some ''r'')) opened_state =
     Inr (opened_state\<lparr>history := history opened_state @
            [Open_genuine (Some ''/tmp/other.txt'') (Some ''r'') 0x3000]\<rparr>)"
    by (simp add: fopen64_def other_no_match sample_state_simps sample_fopen64_def
        opened_state_def del: endswith.simps)
  have h6: "glibc_fopen64 sample_state = Some sample_fopen64"
    by (simp add: sample_state_simps)
  note a = sink_assigned_only_from_discard
    [of sample_libc sample_state
        "\<lparr>next_fopen64 = None, next_fwrite = None, next_truncate = None\<rparr>"
        "Fopen64 (Some flashlog) (Some ''w'')" opened_state "Some ''w''" "0x1000"]
  note b = sink_assigned_only_from_discard
    [of sample_libc opened_state
        "\<lparr>next_fopen64 = None, next_fwrite = None, next_truncate = None\<rparr>"
        "Fopen64 (Some ''/tmp/other.txt'') (Some ''r'')"
        "opened_state\<lparr>history := history opened_state @
            [Open_genuine (Some ''/tmp/other.txt'') (Some ''r'') 0x3000]\<rparr>" "Some ''w''" "0x1000"]
  from a h1 h2 have c1: "sink_is_discard opened_state" by blast
  from a h2 h3 h6 have c2: "fst (sample_fopen64 (Some ''/dev/null'') (Some ''w'') (libc sample_state)) = 0x1000
      \<and> fake_log opened_state = 0x1000"
    by auto
  from b h4 h5 have c3: "fake_log (opened_state\<lparr>history := history opened_state @
            [Open_genuine (Some ''/tmp/other.txt'') (Some ''r'') 0x3000]\<rparr>) = fake_log opened_state"
    by blast
  from c1 c2 have c4: "fake_log opened_state \<in> set (discard_handles (history opened_state))"
    by (simp add: sink_is_discard_def)
  from h1 h2 h3 h4 h5 h6 c1 c2 c3 c4 show ?thesis by blast
qed



end
